theory Spec2Isabelle
  imports Complex_Main "HOL-Library.Sublist" "HOL-Library.Multiset" "HOL-Library.Log_Nat"
begin

section \<open>JavaScript numbers\<close>

text \<open>
  A JavaScript number is an IEEE-754 binary64 value: here a rational (the value of a
  finite double) or one of the three non-finite values. Every \<^verbatim>\<open>+ - * /\<close> rounds its
  exact result to the nearest double, ties to the even mantissa, with gradual underflow
  and overflow to an infinity (\<open>fl\<close> below). The sign of zero is not modelled. The
  operations are the ones the two source files apply (arithmetic, comparisons,
  \<^verbatim>\<open>Number.isFinite\<close>, \<^verbatim>\<open>Math.round\<close>, \<^verbatim>\<open>Math.ceil\<close>, \<^verbatim>\<open>Math.max\<close>,
  \<^verbatim>\<open>toFixed(2)\<close>, truthiness).
\<close>

datatype jsnum = Num rat | PosInf | NegInf | NaN

fun isFinite :: "jsnum \<Rightarrow> bool" where
  "isFinite (Num _) = True"
| "isFinite _ = False"

text \<open>\<^verbatim>\<open>!v\<close> on a number is true exactly for 0 and NaN.\<close>

fun truthy :: "jsnum \<Rightarrow> bool" where
  "truthy (Num r) = (r \<noteq> 0)"
| "truthy NaN = False"
| "truthy _ = True"

fun js_lt :: "jsnum \<Rightarrow> jsnum \<Rightarrow> bool" where
  "js_lt NaN _ = False"
| "js_lt _ NaN = False"
| "js_lt (Num a) (Num b) = (a < b)"
| "js_lt _ NegInf = False"
| "js_lt PosInf _ = False"
| "js_lt NegInf _ = True"
| "js_lt _ PosInf = True"

fun js_le :: "jsnum \<Rightarrow> jsnum \<Rightarrow> bool" where
  "js_le NaN _ = False"
| "js_le _ NaN = False"
| "js_le (Num a) (Num b) = (a \<le> b)"
| "js_le NegInf _ = True"
| "js_le _ PosInf = True"
| "js_le _ NegInf = False"
| "js_le PosInf _ = False"

definition js_gt :: "jsnum \<Rightarrow> jsnum \<Rightarrow> bool" where
  "js_gt a b = js_lt b a"

text \<open>An infinity of a given sign.\<close>

fun signed_inf :: "bool \<Rightarrow> jsnum" where
  "signed_inf True = PosInf"
| "signed_inf False = NegInf"

text \<open>
  Rounding to binary64. \<open>ilog2 x\<close> is the binary exponent \<open>\<lfloor>log\<^sub>2 x\<rfloor>\<close> of a positive
  rational; \<open>round_even\<close> rounds to the nearest integer, a tie to the even one. A double
  is \<open>m \<cdot> 2\<^sup>e\<close> with \<open>m < 2\<^sup>5\<^sup>3\<close> and \<open>e \<ge> -1074\<close>, and a magnitude that rounds to
  \<open>2\<^sup>1\<^sup>0\<^sup>2\<^sup>4\<close> or more overflows.
\<close>

definition ilog2 :: "rat \<Rightarrow> int" where
  "ilog2 x = (if 1 \<le> x then bitlen \<lfloor>x\<rfloor> - 1 else - bitlen (\<lceil>1 / x\<rceil> - 1))"

definition round_even :: "rat \<Rightarrow> int" where
  "round_even q =
     (let f = \<lfloor>q\<rfloor>; r = q - of_int f
      in if r < 1 / 2 then f else if 1 / 2 < r then f + 1
         else if even f then f else f + 1)"

definition fl :: "rat \<Rightarrow> jsnum" where
  "fl x =
     (if x = 0 then Num 0
      else
        let e = max (ilog2 \<bar>x\<bar> - 52) (- 1074);
            m = round_even (\<bar>x\<bar> / 2 powi e);
            y = of_int m * 2 powi e
        in if 2 ^ 1024 \<le> y then signed_inf (0 < x) else Num (sgn x * y))"

fun js_neg :: "jsnum \<Rightarrow> jsnum" where
  "js_neg (Num r) = Num (- r)"
| "js_neg PosInf = NegInf"
| "js_neg NegInf = PosInf"
| "js_neg NaN = NaN"

fun js_add :: "jsnum \<Rightarrow> jsnum \<Rightarrow> jsnum" where
  "js_add NaN _ = NaN"
| "js_add _ NaN = NaN"
| "js_add (Num a) (Num b) = fl (a + b)"
| "js_add PosInf NegInf = NaN"
| "js_add NegInf PosInf = NaN"
| "js_add PosInf _ = PosInf"
| "js_add _ PosInf = PosInf"
| "js_add NegInf _ = NegInf"
| "js_add _ NegInf = NegInf"

definition js_sub :: "jsnum \<Rightarrow> jsnum \<Rightarrow> jsnum" where
  "js_sub a b = js_add a (js_neg b)"

text \<open>An infinity times or over a finite value keeps or flips its sign; zero counts as
  positive zero.\<close>

fun js_mul :: "jsnum \<Rightarrow> jsnum \<Rightarrow> jsnum" where
  "js_mul NaN _ = NaN"
| "js_mul _ NaN = NaN"
| "js_mul (Num a) (Num b) = fl (a * b)"
| "js_mul (Num a) PosInf = (if a = 0 then NaN else signed_inf (0 < a))"
| "js_mul (Num a) NegInf = (if a = 0 then NaN else signed_inf (a < 0))"
| "js_mul PosInf (Num b) = (if b = 0 then NaN else signed_inf (0 < b))"
| "js_mul NegInf (Num b) = (if b = 0 then NaN else signed_inf (b < 0))"
| "js_mul PosInf PosInf = PosInf"
| "js_mul NegInf NegInf = PosInf"
| "js_mul PosInf NegInf = NegInf"
| "js_mul NegInf PosInf = NegInf"

fun js_div :: "jsnum \<Rightarrow> jsnum \<Rightarrow> jsnum" where
  "js_div NaN _ = NaN"
| "js_div _ NaN = NaN"
| "js_div (Num a) (Num b) =
     (if b = 0 then (if a = 0 then NaN else signed_inf (0 < a)) else fl (a / b))"
| "js_div (Num a) _ = Num 0"
| "js_div PosInf (Num b) = signed_inf (0 \<le> b)"
| "js_div NegInf (Num b) = signed_inf (b < 0)"
| "js_div _ _ = NaN"

text \<open>\<^verbatim>\<open>Math.round\<close> rounds a half towards plus infinity, which is what
  \<^const>\<open>round\<close> does (\<open>round x = \<lfloor>x + 1/2\<rfloor>\<close>); it and \<^verbatim>\<open>Math.ceil\<close> are exact
  on the double they are given.\<close>

fun Math_round :: "jsnum \<Rightarrow> jsnum" where
  "Math_round (Num r) = Num (of_int (round r))"
| "Math_round v = v"

fun Math_ceil :: "jsnum \<Rightarrow> jsnum" where
  "Math_ceil (Num r) = Num (of_int \<lceil>r\<rceil>)"
| "Math_ceil v = v"

fun js_max2 :: "jsnum \<Rightarrow> jsnum \<Rightarrow> jsnum" where
  "js_max2 NaN _ = NaN"
| "js_max2 _ NaN = NaN"
| "js_max2 a b = (if js_lt a b then b else a)"

text \<open>\<^verbatim>\<open>Math.max(...vs)\<close>: minus infinity for no argument, NaN as soon as one
  argument is NaN.\<close>

definition Math_max :: "jsnum list \<Rightarrow> jsnum" where
  "Math_max vs = foldl js_max2 NegInf vs"

text \<open>\<^verbatim>\<open>Number(v.toFixed(2))\<close>: \<^verbatim>\<open>toFixed\<close> picks the two-decimal numeral nearest
  the exact value of the double, a tie away from zero, and \<^verbatim>\<open>Number\<close> reads it back
  as the nearest double; values of magnitude \<open>10\<^sup>2\<^sup>1\<close> and more and the non-finite ones
  come back as they are.\<close>

fun toFixed2 :: "jsnum \<Rightarrow> jsnum" where
  "toFixed2 (Num r) =
     (if 10 ^ 21 \<le> \<bar>r\<bar> then Num r
      else fl (sgn r * of_int \<lfloor>\<bar>r\<bar> * 100 + 1 / 2\<rfloor> / 100))"
| "toFixed2 v = v"

text \<open>\<^verbatim>\<open>s.includes(t)\<close> on strings.\<close>

fun str_includes :: "string \<Rightarrow> string \<Rightarrow> bool" where
  "str_includes [] t = (t = [])"
| "str_includes (c # cs) t = (prefix t (c # cs) \<or> str_includes cs t)"

section \<open>The chart: class EfficiencyScatter (votes.js)\<close>

text \<open>
  The point object the aggregator builds and \<^verbatim>\<open>pushPoint\<close> stores in
  \<^verbatim>\<open>_rawPoints\<close>. A numeric field that is absent behaves as NaN in every operation
  \<^verbatim>\<open>pushPoint\<close> and \<^verbatim>\<open>toggleMode\<close> apply to it (\<^verbatim>\<open>Number.isFinite\<close>,
  \<^verbatim>\<open>Math.round\<close>), so an absent field is the value NaN here.
\<close>

record raw_point =
  tsMs :: jsnum
  efficiency :: jsnum
  weightedEff :: jsnum
  voterRewardValue :: jsnum
  totalValue :: jsnum
  sameAuthor :: bool

text \<open>An entry of \<^verbatim>\<open>chart.data.datasets[0].data\<close>.\<close>

record data_point =
  px :: jsnum
  py :: jsnum
  d_efficiency :: jsnum
  d_weightedEff :: jsnum
  d_voterRewardValue :: jsnum
  d_totalValue :: jsnum
  d_sameAuthor :: bool

text \<open>A guide line: one of the further entries of \<^verbatim>\<open>chart.data.datasets\<close>.\<close>

record line_dataset =
  l_id :: string
  l_label :: string
  l_color :: string
  l_data :: "(jsnum \<times> jsnum) list"

text \<open>
  The fields of an \<^verbatim>\<open>EfficiencyScatter\<close> and of the chart it owns that the operations
  read or write. \<^verbatim>\<open>this.chart\<close> is assigned by \<^verbatim>\<open>createChart\<close>, which the
  constructor always calls, and is never reassigned: the chart exists in every state, and
  the \<^verbatim>\<open>if (!this.chart) return\<close> guards never fire. \<open>y_max\<close> is
  \<^verbatim>\<open>chart.options.scales.y.max\<close>, \<open>None\<close> while it is undefined. Redrawing
  (\<^verbatim>\<open>chart.update\<close>) and the toggle button are not modelled.
\<close>

record scatter =
  yBaselineMin :: jsnum
  showWeighted :: bool
  minPointTs :: jsnum
  finalized :: bool
  rawPoints :: "raw_point list"
  startMs :: jsnum
  endMs :: jsnum
  dataset :: "data_point list"
  guides :: "line_dataset list"
  x_min :: jsnum
  x_max :: jsnum
  y_min :: jsnum
  y_max :: "jsnum option"

text \<open>The constructor, given the window bounds it computes from the anchor date.\<close>

definition EfficiencyScatter :: "jsnum \<Rightarrow> jsnum \<Rightarrow> jsnum \<Rightarrow> scatter" where
  "EfficiencyScatter start end ybase =
     \<lparr> yBaselineMin = ybase, showWeighted = False, minPointTs = NegInf, finalized = False,
       rawPoints = [], startMs = start, endMs = end, dataset = [], guides = [],
       x_min = start, x_max = end, y_min = ybase, y_max = None \<rparr>"

text \<open>\<^verbatim>\<open>pushPoint({tsMs, efficiency, ..., pad = 5})\<close>; \<open>pad\<close> is \<open>None\<close> when the
  caller leaves it out.\<close>

definition pushPoint :: "scatter \<Rightarrow> raw_point \<Rightarrow> jsnum option \<Rightarrow> scatter" where
  "pushPoint s p pad_arg =
     (if \<not> isFinite (tsMs p) \<or> \<not> isFinite (efficiency p) then s
      else
        let pad = (case pad_arg of None \<Rightarrow> Num 5 | Some v \<Rightarrow> v);
            s1 = s\<lparr>rawPoints := rawPoints s @ [p]\<rparr>;
            y = Math_round (if showWeighted s1 then weightedEff p else efficiency p);
            s2 = s1\<lparr>dataset := dataset s1 @
                   [\<lparr> px = tsMs p, py = y, d_efficiency = efficiency p,
                      d_weightedEff = weightedEff p,
                      d_voterRewardValue = voterRewardValue p,
                      d_totalValue = totalValue p, d_sameAuthor = sameAuthor p \<rparr>]\<rparr>;
            candidateMax = Math_ceil (js_add y pad);
            s3 = (if js_lt (tsMs p) (minPointTs s2)
                  then s2\<lparr>minPointTs := tsMs p, x_min := js_sub (tsMs p) (Num 5)\<rparr>
                  else s2)
        in (case y_max s3 of
              None \<Rightarrow> s3\<lparr>y_max := Some candidateMax\<rparr>
            | Some m \<Rightarrow>
                if \<not> truthy m \<or> js_gt candidateMax m
                then s3\<lparr>y_max := Some candidateMax\<rparr> else s3))"

text \<open>\<^verbatim>\<open>_yValues\<close>: the finite y values of the plotted points, as rationals.\<close>

fun finite_values :: "jsnum list \<Rightarrow> rat list" where
  "finite_values [] = []"
| "finite_values (Num r # vs) = r # finite_values vs"
| "finite_values (_ # vs) = finite_values vs"

definition yValues :: "scatter \<Rightarrow> rat list" where
  "yValues s = finite_values (map py (dataset s))"

text \<open>\<^verbatim>\<open>_stats\<close>: \<^verbatim>\<open>null\<close> is \<open>None\<close>. The comparator \<^verbatim>\<open>(a,b) => a-b\<close> sorts
  finite numbers in ascending order. The y values are the integers \<^verbatim>\<open>Math.round\<close>
  returns; their sum and the two quotients are taken exactly here (the mean of the
  source is the double nearest this quotient).\<close>

definition stats :: "scatter \<Rightarrow> jsnum option \<times> jsnum option" where
  "stats s =
     (let ys = sort (yValues s)
      in if length ys = 0 then (None, None)
         else
           let mean = foldl (\<lambda>a n. a + n) 0 ys / of_nat (length ys);
               mid = length ys div 2;
               median = (if length ys mod 2 \<noteq> 0 then ys ! mid
                         else (ys ! (mid - 1) + ys ! mid) / 2)
           in (Some (Num mean), Some (Num median)))"

text \<open>\<^verbatim>\<open>_upsertLineDataset\<close>: the first dataset with the id is overwritten
  (\<^verbatim>\<open>findIndex\<close>, \<^verbatim>\<open>Object.assign\<close>), or the line is pushed.\<close>

fun upsert_first :: "string \<Rightarrow> line_dataset \<Rightarrow> line_dataset list \<Rightarrow> line_dataset list" where
  "upsert_first ident cfg [] = [cfg]"
| "upsert_first ident cfg (d # ds) =
     (if l_id d = ident then cfg # ds else d # upsert_first ident cfg ds)"

definition upsertLineDataset ::
    "string \<Rightarrow> jsnum \<Rightarrow> string \<Rightarrow> string \<Rightarrow> scatter \<Rightarrow> scatter" where
  "upsertLineDataset ident v color lab s =
     (if \<not> isFinite v then s
      else
        let minX = x_min s; maxX = x_max s;
            midX = js_div (js_add minX maxX) (Num 2);
            cfg = \<lparr> l_id = ident, l_label = lab, l_color = color,
                    l_data = [(minX, v), (midX, v), (maxX, v)] \<rparr>
        in s\<lparr>guides := upsert_first ident cfg (guides s)\<rparr>)"

definition resetGuideLines :: "scatter \<Rightarrow> scatter" where
  "resetGuideLines s =
     s\<lparr>guides := filter (\<lambda>d. l_id d \<notin> set [''mean-line'', ''median-line'',
                                            ''weightedMean-line'']) (guides s)\<rparr>"

definition addStatsLines :: "scatter \<Rightarrow> scatter" where
  "addStatsLines s =
     (if finalized s then
        let (mean, median) = stats s;
            s1 = (case mean of
                    Some m \<Rightarrow> if truthy m
                              then upsertLineDataset ''mean-line'' m
                                     ''rgba(107,114,128,0.8)'' ''Mean'' s
                              else s
                  | None \<Rightarrow> s);
            s2 = (case median of
                    Some m \<Rightarrow> if truthy m
                              then upsertLineDataset ''median-line'' m
                                     ''rgba(55,65,81,0.9)'' ''Median'' s1
                              else s1
                  | None \<Rightarrow> s1);
            yMax = Math_max [case y_max s2 of Some m \<Rightarrow> m | None \<Rightarrow> NegInf,
                             case mean of Some m \<Rightarrow> m | None \<Rightarrow> NegInf,
                             case median of Some m \<Rightarrow> m | None \<Rightarrow> NegInf]
        in if isFinite yMax then s2\<lparr>y_max := Some (Math_ceil (js_add yMax (Num 5)))\<rparr>
           else s2
      else s)"

definition toggleMode :: "scatter \<Rightarrow> scatter" where
  "toggleMode s =
     (let s1 = s\<lparr>showWeighted := \<not> showWeighted s\<rparr>;
          s2 = s1\<lparr>dataset := map (\<lambda>p. p\<lparr>py := Math_round
                     (if showWeighted s1 then d_weightedEff p else d_efficiency p)\<rparr>)
                     (dataset s1)\<rparr>;
          s3 = resetGuideLines s2;
          yVals = filter isFinite (map py (dataset s3));
          s4 = s3\<lparr>y_max := (if length yVals \<noteq> 0
                              then Some (Math_ceil (js_add
                                     (Math_max (yVals @ [yBaselineMin s3])) (Num 5)))
                              else None)\<rparr>
      in addStatsLines s4)"

definition finalize :: "scatter \<Rightarrow> scatter" where
  "finalize s = s\<lparr>finalized := True\<rparr>"

text \<open>The operations a chart receives while it lives, and a chart's history.\<close>

datatype chart_op = Push raw_point "jsnum option" | Toggle | Finalize | AddStats

fun apply_chart_op :: "scatter \<Rightarrow> chart_op \<Rightarrow> scatter" where
  "apply_chart_op s (Push p pad_arg) = pushPoint s p pad_arg"
| "apply_chart_op s Toggle = toggleMode s"
| "apply_chart_op s Finalize = finalize s"
| "apply_chart_op s AddStats = addStatsLines s"

definition run_chart :: "scatter \<Rightarrow> chart_op list \<Rightarrow> scatter" where
  "run_chart s ops = foldl apply_chart_op s ops"

section \<open>The post cache: getPostCached (votes.js)\<close>

text \<open>A value a promise can reject with; the retry loop reads three fields of it.\<close>

record js_err =
  err_message :: "string option"
  err_status :: "jsnum option"
  err_code :: "jsnum option"

text \<open>
  What the aggregator reads of a resolved \<^verbatim>\<open>Post\<close>. The class itself is outside the
  source files at hand; a detail is a number, or \<open>None\<close> when it is
  \<^verbatim>\<open>undefined\<close> or \<^verbatim>\<open>null\<close>.
\<close>

record post_details =
  total_vests :: "jsnum option"
  totalVests :: "jsnum option"
  total_rshares :: "jsnum option"
  totalRshares :: "jsnum option"
  total_payout_value :: "jsnum option"

record post =
  p_author :: string
  p_permlink :: string
  details :: post_details

text \<open>
  A promise stored in \<^verbatim>\<open>postCache\<close>: \<open>fid\<close> is the identity of the promise object
  (the ordinal of the underlying resolution that created it), \<open>settled\<close> the value it
  resolves to or rejects with. Every \<^verbatim>\<open>await\<close> of the same promise sees the same
  \<open>settled\<close>.
\<close>

record future =
  fid :: nat
  settled :: "js_err + post"

record cache =
  entries :: "string \<rightharpoonup> future"
  started :: nat

text \<open>
  The remote side: the outcome of the \<open>n\<close>-th underlying resolution
  (\<^verbatim>\<open>new Post; fetchDetails; getVoteData; getTotalVests(time)\<close>) for the given
  arguments. Two independent resolutions of the same post may differ.
\<close>

type_synonym resolver = "nat \<Rightarrow> string \<Rightarrow> string \<Rightarrow> jsnum \<Rightarrow> js_err + post"

definition postCache :: cache where
  "postCache = \<lparr> entries = Map.empty, started = 0 \<rparr>"

definition keyFor :: "string \<Rightarrow> string \<Rightarrow> string" where
  "keyFor a p = a @ ''/'' @ p"

definition getPostCached ::
    "resolver \<Rightarrow> cache \<Rightarrow> string \<Rightarrow> string \<Rightarrow> jsnum \<Rightarrow> future \<times> cache" where
  "getPostCached R c author permlink time =
     (let key = keyFor author permlink
      in case entries c key of
           Some f \<Rightarrow> (f, c)
         | None \<Rightarrow>
             let f = \<lparr> fid = started c, settled = R (started c) author permlink time \<rparr>
             in (f, c\<lparr>entries := (entries c)(key \<mapsto> f), started := Suc (started c)\<rparr>))"

text \<open>Any later traffic on the cache: a list of (author, permlink, time) requests.\<close>

fun resolve_all :: "resolver \<Rightarrow> cache \<Rightarrow> (string \<times> string \<times> jsnum) list \<Rightarrow> cache" where
  "resolve_all R c [] = c"
| "resolve_all R c ((a, p, t) # rest) = resolve_all R (snd (getPostCached R c a p t)) rest"

section \<open>The aggregator: getHistoricCurationRewards and VoterTip.prefetchEfficiencyData\<close>

text \<open>
  A row of the rewards table, its four cells already read through the column indices
  (\<^verbatim>\<open>reward[tIdx]\<close> and so on); \<open>None\<close> is a cell that is \<^verbatim>\<open>undefined\<close>.
\<close>

record reward =
  r_time :: "jsnum option"
  r_author :: string
  r_permlink :: string
  r_vests :: "jsnum option"

text \<open>What \<^verbatim>\<open>fetch\<close> and \<^verbatim>\<open>response.json()\<close> can do in
  \<^verbatim>\<open>getHistoricCurationRewards\<close>; \<open>Json r\<close> carries \<^verbatim>\<open>data.result\<close>'s rows,
  \<open>None\<close> when the result is missing.\<close>

datatype fetch_outcome =
    NetworkFailure
  | HttpNotOk nat
  | BadJson
  | Json "reward list option"

text \<open>Every failure inside the \<^verbatim>\<open>try\<close> is caught and logged, and
  \<^verbatim>\<open>null\<close> is returned.\<close>

fun getHistoricCurationRewards :: "fetch_outcome \<Rightarrow> reward list option" where
  "getHistoricCurationRewards (Json r) = r"
| "getHistoricCurationRewards _ = None"

record vote =
  voter :: string
  percent :: jsnum
  rshares :: jsnum

record tip =
  post_author :: string
  tip_vote :: vote
  efficiencyData :: "raw_point list"
  weightedEffAvg :: jsnum
  totalCurationRew :: jsnum
  contributedValue :: jsnum
  totAuthor :: nat
  tip_scatter :: "scatter option"

text \<open>What leaves \<^verbatim>\<open>prefetchEfficiencyData\<close> as a rejected promise.\<close>

datatype exn = ReferenceError string | TypeError string

definition is503 :: "js_err \<Rightarrow> bool" where
  "is503 e =
     ((case err_message e of Some m \<Rightarrow> str_includes m ''503'' | None \<Rightarrow> False)
      \<or> err_status e = Some (Num 503) \<or> err_code e = Some (Num 503))"

text \<open>
  The loop \<^verbatim>\<open>for (let i = 0; i < 5; i++)\<close> around \<^verbatim>\<open>getPostCached\<close>, with the
  attempts left as the counter and \<^verbatim>\<open>histPost\<close> as accumulator. There is no
  \<^verbatim>\<open>break\<close>: a success is followed by the remaining attempts. In the
  \<^verbatim>\<open>catch\<close> block a 503 calls \<^verbatim>\<open>sleep(100)\<close> without awaiting it; the other
  branch evaluates \<^verbatim>\<open>console.error(..., error)\<close>, and \<^verbatim>\<open>error\<close> is bound
  nowhere in scope (the catch parameter is \<^verbatim>\<open>err\<close>), so evaluating it throws a
  ReferenceError out of the loop.
\<close>

fun fetch_histPost ::
    "resolver \<Rightarrow> nat \<Rightarrow> cache \<Rightarrow> string \<Rightarrow> string \<Rightarrow> jsnum \<Rightarrow> post option
     \<Rightarrow> exn + (post option \<times> cache)" where
  "fetch_histPost R 0 c a p t histPost = Inr (histPost, c)"
| "fetch_histPost R (Suc n) c a p t histPost =
     (case getPostCached R c a p t of
        (f, c') \<Rightarrow>
          (case settled f of
             Inr hp \<Rightarrow> fetch_histPost R n c' a p t (Some hp)
           | Inl err \<Rightarrow>
               if is503 err then fetch_histPost R n c' a p t histPost
               else Inl (ReferenceError ''error'')))"

text \<open>\<^verbatim>\<open>a ?? b ?? 0\<close> and \<^verbatim>\<open>Number(v) || 0\<close>.\<close>

definition nullish2 :: "jsnum option \<Rightarrow> jsnum option \<Rightarrow> jsnum" where
  "nullish2 a b = (case a of Some v \<Rightarrow> v | None \<Rightarrow> (case b of Some v \<Rightarrow> v | None \<Rightarrow> Num 0))"

definition number_or_zero :: "jsnum option \<Rightarrow> jsnum" where
  "number_or_zero a = (case a of Some v \<Rightarrow> if truthy v then v else Num 0 | None \<Rightarrow> Num 0)"

text \<open>
  The body of \<^verbatim>\<open>for (const reward of rows)\<close>. \<open>Inr\<close> is the end of the iteration
  (a \<^verbatim>\<open>continue\<close> or the end of the body), \<open>Inl\<close> an exception leaving the loop.
  \<^verbatim>\<open>updateMetrics\<close> writes the totals to the page and the two \<^verbatim>\<open>sleep\<close>s only
  delay; neither changes the state modelled here.
\<close>

definition process_reward ::
    "resolver \<Rightarrow> reward \<Rightarrow> cache \<times> tip \<Rightarrow> exn + (cache \<times> tip)" where
  "process_reward R rw ct =
     (case ct of (c, t) \<Rightarrow>
      (case r_time rw of
         None \<Rightarrow> Inr (c, t)
       | Some timeSec \<Rightarrow>
           if \<not> truthy timeSec then Inr (c, t)
           else
             (case fetch_histPost R 5 c (r_author rw) (r_permlink rw) timeSec None of
                Inl e \<Rightarrow> Inl e
              | Inr (None, c') \<Rightarrow> Inr (c', t)
              | Inr (Some histPost, c') \<Rightarrow>
                  let sameAuthor = (p_author histPost = post_author t);
                      t1 = (if sameAuthor then t\<lparr>totAuthor := totAuthor t + 1\<rparr> else t);
                      voterVests = number_or_zero (r_vests rw);
                      totalVests' = nullish2 (total_vests (details histPost))
                                             (totalVests (details histPost));
                      totalRshares' = nullish2 (total_rshares (details histPost))
                                               (totalRshares (details histPost));
                      voterRshares = js_div (rshares (tip_vote t1)) (Num 1000000)
                  in if js_le totalVests' (Num 0) \<or> js_le totalRshares' (Num 0)
                        \<or> js_le voterRshares (Num 0) \<or> js_le voterVests (Num 0)
                     then Inr (c', t1)
                     else
                       let pctContributed = js_div voterRshares totalRshares';
                           pctReceived = js_div voterVests totalVests'
                       in if js_le pctContributed (Num 0) then Inr (c', t1)
                          else
                            let efficiency' = Math_round
                                  (js_mul (js_div pctReceived pctContributed) (Num 100));
                                voteWeight = js_div (percent (tip_vote t1)) (Num 10000);
                                weightedEfficiency =
                                  Math_round (js_mul efficiency' voteWeight);
                                tsMs' = js_mul timeSec (Num 1000)
                            in (case total_payout_value (details histPost) of
                                  None \<Rightarrow> Inl (TypeError ''toFixed'')
                                | Some tpv \<Rightarrow>
                                    let totalValue' = toFixed2 tpv;
                                        voterRewardValue' = toFixed2
                                          (js_mul (js_div voterVests totalVests') totalValue');
                                        voterContributedValue = toFixed2
                                          (js_mul (js_div voterRshares totalRshares')
                                                  totalValue');
                                        t2 = t1\<lparr>contributedValue :=
                                               js_add (contributedValue t1)
                                                      voterContributedValue\<rparr>;
                                        t3 = t2\<lparr>totalCurationRew :=
                                               js_add (totalCurationRew t2)
                                                      voterRewardValue'\<rparr>;
                                        point = \<lparr> tsMs = tsMs', efficiency = efficiency',
                                                  weightedEff = weightedEfficiency,
                                                  voterRewardValue = voterRewardValue',
                                                  totalValue = totalValue',
                                                  sameAuthor = sameAuthor \<rparr>;
                                        t4 = t3\<lparr>efficiencyData := efficiencyData t3 @ [point]\<rparr>
                                    in Inr (c', t4\<lparr>tip_scatter := map_option
                                              (\<lambda>sc. pushPoint sc point None)
                                              (tip_scatter t4)\<rparr>)))))"

fun process_rows ::
    "resolver \<Rightarrow> reward list \<Rightarrow> cache \<times> tip \<Rightarrow> exn + (cache \<times> tip)" where
  "process_rows R [] ct = Inr ct"
| "process_rows R (rw # rows) ct =
     (case process_reward R rw ct of
        Inl e \<Rightarrow> Inl e
      | Inr ct' \<Rightarrow> process_rows R rows ct')"

text \<open>
  \<^verbatim>\<open>prefetchEfficiencyData\<close>, given what the window fetch does. \<open>Inr\<close> is the
  promise fulfilled, \<open>Inl\<close> the promise rejected.
\<close>

definition prefetchEfficiencyData ::
    "resolver \<Rightarrow> fetch_outcome \<Rightarrow> cache \<times> tip \<Rightarrow> exn + (cache \<times> tip)" where
  "prefetchEfficiencyData R fo ct =
     (case tip_scatter (snd ct) of
        None \<Rightarrow> Inr ct
      | Some _ \<Rightarrow>
          let res = getHistoricCurationRewards fo;
              rows = (case res of Some rs \<Rightarrow> rs | None \<Rightarrow> [])
          in (case process_rows R rows ct of
                Inl e \<Rightarrow> Inl e
              | Inr (c', t') \<Rightarrow>
                  Inr (c', t'\<lparr>tip_scatter := map_option (\<lambda>sc. addStatsLines (finalize sc))
                                                (tip_scatter t')\<rparr>)))"

text \<open>The constructor of \<^verbatim>\<open>VoterTip\<close>, with the chart \<^verbatim>\<open>addChart\<close> made (or
  \<open>None\<close> when the chart container was not found).\<close>

definition VoterTip :: "string \<Rightarrow> vote \<Rightarrow> scatter option \<Rightarrow> tip" where
  "VoterTip author v sc =
     \<lparr> post_author = author, tip_vote = v, efficiencyData = [], weightedEffAvg = Num 0,
       totalCurationRew = Num 0, contributedValue = Num 0, totAuthor = 0,
       tip_scatter = sc \<rparr>"

section \<open>Reference definitions and example states\<close>



text \<open>The y value a stored raw point projects to in a mode.\<close>

definition projected_y :: "bool \<Rightarrow> raw_point \<Rightarrow> jsnum" where
  "projected_y weighted p = Math_round (if weighted then weightedEff p else efficiency p)"

definition example_point :: "rat \<Rightarrow> rat \<Rightarrow> rat \<Rightarrow> raw_point" where
  "example_point t e w =
     \<lparr> tsMs = Num t, efficiency = Num e, weightedEff = Num w, voterRewardValue = Num 0,
       totalValue = Num 0, sameAuthor = False \<rparr>"

definition three_point_chart :: scatter where
  "three_point_chart =
     run_chart (EfficiencyScatter (Num 1000) (Num 2000) (Num 0))
       [Push (example_point 1100 30 3) None, Push (example_point 1200 10 1) None,
        Push (example_point 1300 20 2) None]"


text \<open>The dataset entry \<^verbatim>\<open>pushPoint\<close> builds from a raw point, and the relation
  between the plotted dataset and \<^verbatim>\<open>_rawPoints\<close>.\<close>

definition project :: "bool \<Rightarrow> raw_point \<Rightarrow> data_point" where
  "project weighted p =
     \<lparr> px = tsMs p, py = projected_y weighted p, d_efficiency = efficiency p,
       d_weightedEff = weightedEff p, d_voterRewardValue = voterRewardValue p,
       d_totalValue = totalValue p, d_sameAuthor = sameAuthor p \<rparr>"

definition projection_inv :: "scatter \<Rightarrow> bool" where
  "projection_inv s = (dataset s = map (project (showWeighted s)) (rawPoints s))"

text \<open>A window fetch that failed: anything but a parsed response.\<close>

definition is_failure :: "fetch_outcome \<Rightarrow> bool" where
  "is_failure fo = (case fo of Json _ \<Rightarrow> False | _ \<Rightarrow> True)"

text \<open>Example inputs. The resolver fails for author alice with a 404, for author dave
  with a 503, and resolves every other post to the snapshot of the specification's
  scenario; the payout it reports depends on the time asked for.\<close>

definition err404 :: js_err where
  "err404 = \<lparr> err_message = Some ''HTTP error 404'', err_status = None, err_code = None \<rparr>"

definition err503 :: js_err where
  "err503 = \<lparr> err_message = Some ''HTTP error 503'', err_status = None, err_code = None \<rparr>"

definition example_post :: "string \<Rightarrow> string \<Rightarrow> jsnum \<Rightarrow> post" where
  "example_post a p t =
     \<lparr> p_author = a, p_permlink = p,
       details = \<lparr> total_vests = Some (Num 100), totalVests = None,
                   total_rshares = Some (Num 1000), totalRshares = None,
                   total_payout_value = Some (if t = Num 1000 then Num 50 else Num 60) \<rparr> \<rparr>"

definition example_resolver :: resolver where
  "example_resolver n a p t =
     (if a = ''alice'' then Inl err404
      else if a = ''dave'' then Inl err503
      else Inr (example_post a p t))"

definition example_vote :: vote where
  "example_vote = \<lparr> voter = ''bob'', percent = Num 10000, rshares = Num 100000000 \<rparr>"

definition example_chart :: scatter where
  "example_chart = EfficiencyScatter (Num 1000000) (Num 2000000) (Num 0)"

definition example_tip :: tip where
  "example_tip = VoterTip ''erin'' example_vote (Some example_chart)"

definition example_reward :: "string \<Rightarrow> reward" where
  "example_reward a = \<lparr> r_time = Some (Num 1000), r_author = a, r_permlink = ''post'',
                        r_vests = Some (Num 5) \<rparr>"

definition carol_first :: "future \<times> cache" where
  "carol_first = getPostCached example_resolver postCache ''carol'' ''post'' (Num 1000)"

definition dave_first :: "future \<times> cache" where
  "dave_first = getPostCached example_resolver postCache ''dave'' ''post'' (Num 1000)"

definition weighted_chart :: scatter where
  "weighted_chart = toggleMode example_chart"

definition nan_weighted_point :: raw_point where
  "nan_weighted_point =
     \<lparr> tsMs = Num 1100000, efficiency = Num 50, weightedEff = NaN,
       voterRewardValue = Num 0, totalValue = Num 0, sameAuthor = False \<rparr>"

text \<open>The candidate \<^verbatim>\<open>Math.ceil(y + pad)\<close> a push computes for the y-axis maximum, and
  the pushes of a stream: points the guard accepts whose candidate is a number other than
  0 (of a push that is no point, the candidate is NaN).\<close>

definition candidateMax :: "bool \<Rightarrow> raw_point \<Rightarrow> jsnum option \<Rightarrow> jsnum" where
  "candidateMax weighted p pad_arg =
     Math_ceil (js_add (projected_y weighted p)
                       (case pad_arg of None \<Rightarrow> Num 5 | Some v \<Rightarrow> v))"




text \<open>A number that is not negative: a finite value of 0 or more, plus infinity, or
  NaN.\<close>

fun nonneg_num :: "jsnum \<Rightarrow> bool" where
  "nonneg_num (Num r) = (0 \<le> r)"
| "nonneg_num NegInf = False"
| "nonneg_num _ = True"

text \<open>The points a run has emitted, if it has not thrown.\<close>

fun emitted :: "exn + (cache \<times> tip) \<Rightarrow> raw_point list" where
  "emitted (Inr (c, t)) = efficiencyData t"
| "emitted (Inl e) = []"

text \<open>A second resolver: every post has total vests 1, total rshares 9 and payout 50.\<close>

definition ninth_post :: "string \<Rightarrow> string \<Rightarrow> post" where
  "ninth_post a p =
     \<lparr> p_author = a, p_permlink = p,
       details = \<lparr> total_vests = Some (Num 1), totalVests = None,
                   total_rshares = Some (Num 9), totalRshares = None,
                   total_payout_value = Some (Num 50) \<rparr> \<rparr>"

definition ninth_resolver :: resolver where
  "ninth_resolver n a p t = Inr (ninth_post a p)"

definition ninth_tip :: tip where
  "ninth_tip =
     VoterTip ''erin'' \<lparr> voter = ''bob'', percent = Num 10000, rshares = Num 40000000 \<rparr>
       (Some example_chart)"

definition ninth_reward :: reward where
  "ninth_reward = \<lparr> r_time = Some (Num 1000), r_author = ''carol'', r_permlink = ''post'',
                     r_vests = Some (Num 1) \<rparr>"

text \<open>The example tip with a vote weight of 29 percent.\<close>

definition light_tip :: tip where
  "light_tip =
     VoterTip ''erin'' \<lparr> voter = ''bob'', percent = Num 2900, rshares = Num 100000000 \<rparr>
       (Some example_chart)"

section \<open>Verified properties\<close>

subsection \<open>Rounding to doubles\<close>

lemma powi_neg: "0 \<le> n \<Longrightarrow> (2::rat) powi (- n) = 1 / 2 ^ nat n"
  by (simp add: power_int_minus_divide power_int_nonneg_exp)

lemma ilog2_ge1:
  assumes "1 \<le> x"
  shows "2 powi (ilog2 x) \<le> x \<and> x < 2 powi (ilog2 x + 1)"
proof -
  define n where "n = \<lfloor>x\<rfloor>"
  have n1: "1 \<le> n" using assms by (simp add: n_def le_floor_iff)
  then have npos: "0 < n" by simp
  have b1: "1 \<le> bitlen n" using npos by (simp add: bitlen_alt_def)
  from bitlen_bounds [OF npos]
  have lo: "2 ^ nat (bitlen n - 1) \<le> n" and hi: "n < 2 ^ nat (bitlen n)" by simp_all
  have k: "ilog2 x = bitlen n - 1" using assms by (simp add: ilog2_def n_def)
  have "(2::rat) powi (bitlen n - 1) = 2 ^ nat (bitlen n - 1)"
    using b1 by (simp add: power_int_nonneg_exp)
  also have "\<dots> = of_int (2 ^ nat (bitlen n - 1))" by simp
  also have "\<dots> \<le> of_int n" using lo by (simp only: of_int_le_iff)
  also have "\<dots> \<le> x" by (simp add: n_def)
  finally have c1: "2 powi (ilog2 x) \<le> x" by (simp add: k)
  have "x < of_int (n + 1)" unfolding n_def by linarith
  also have "\<dots> \<le> of_int (2 ^ nat (bitlen n))"
  proof -
    from hi have "n + 1 \<le> 2 ^ nat (bitlen n)" by simp
    then show ?thesis by (simp only: of_int_le_iff)
  qed
  also have "\<dots> = (2::rat) ^ nat (bitlen n)" by simp
  also have "\<dots> = 2 powi (bitlen n)" using b1 by (simp add: power_int_nonneg_exp)
  finally have c2: "x < 2 powi (ilog2 x + 1)" by (simp add: k)
  from c1 c2 show ?thesis ..
qed

lemma ilog2_lt1:
  assumes "0 < x" and "x < 1"
  shows "2 powi (ilog2 x) \<le> x \<and> x < 2 powi (ilog2 x + 1)"
proof -
  define y where "y = 1 / x"
  define c where "c = \<lceil>y\<rceil>"
  define b where "b = bitlen (c - 1)"
  have y1: "1 < y" using assms by (simp add: y_def)
  have ypos: "0 < y" using y1 by simp
  have c2: "2 \<le> c" using y1 unfolding c_def by linarith
  then have cpos: "0 < c - 1" by simp
  have b1: "1 \<le> b" using cpos by (simp add: b_def bitlen_alt_def)
  from bitlen_bounds [OF cpos]
  have lo: "2 ^ nat (b - 1) \<le> c - 1" and hi: "c - 1 < 2 ^ nat b" by (simp_all add: b_def)
  have k: "ilog2 x = - b" using assms by (simp add: ilog2_def b_def c_def y_def)
  have xy: "1 / y = x" by (simp add: y_def)
  have "y \<le> of_int c" by (simp add: c_def)
  also have "\<dots> \<le> of_int (2 ^ nat b)"
  proof -
    from hi have "c \<le> 2 ^ nat b" by simp
    then show ?thesis by (simp only: of_int_le_iff)
  qed
  also have "\<dots> = (2::rat) ^ nat b" by simp
  finally have yb: "y \<le> 2 ^ nat b" .
  have "(2::rat) powi (- b) = 1 / 2 ^ nat b"
    using b1 by (subst powi_neg) simp_all
  also have "\<dots> \<le> 1 / y" using yb ypos by (simp add: frac_le)
  finally have r1: "2 powi (ilog2 x) \<le> x" by (simp only: k xy)
  have "(2::rat) ^ nat (b - 1) = of_int (2 ^ nat (b - 1))" by simp
  also have "\<dots> \<le> of_int (c - 1)" using lo by (simp only: of_int_le_iff)
  also have "\<dots> < y" unfolding c_def by linarith
  finally have yb2: "2 ^ nat (b - 1) < y" .
  have "1 / y < 1 / 2 ^ nat (b - 1)"
    using yb2 by (simp add: frac_less2)
  also have "\<dots> = (2::rat) powi (- (b - 1))"
    using b1 by (subst powi_neg) simp_all
  finally have "x < 2 powi (- (b - 1))" by (simp only: xy)
  then have r2: "x < 2 powi (ilog2 x + 1)" by (simp add: k)
  from r1 r2 show ?thesis ..
qed

lemma ilog2_bounds:
  "0 < x \<Longrightarrow> 2 powi (ilog2 x) \<le> x \<and> x < 2 powi (ilog2 x + 1)"
  using ilog2_ge1 [of x] ilog2_lt1 [of x] by (cases "1 \<le> x") simp_all

lemma pow2_less_D: "(2::rat) powi a < 2 powi b \<Longrightarrow> a < b"
proof (rule ccontr)
  assume lt: "(2::rat) powi a < 2 powi b" and "\<not> a < b"
  then have "b \<le> a" by simp
  then have "(2::rat) powi b \<le> 2 powi a" by (intro power_int_increasing) simp_all
  with lt show False by simp
qed

lemma ilog2_unique:
  assumes "0 < x" and "2 powi k \<le> x" and "x < 2 powi (k + 1)"
  shows "ilog2 x = k"
proof -
  from ilog2_bounds [OF assms(1)]
  have lo: "2 powi (ilog2 x) \<le> x" and hi: "x < 2 powi (ilog2 x + 1)" by simp_all
  have "(2::rat) powi k < 2 powi (ilog2 x + 1)" using assms(2) hi by simp
  then have a: "k < ilog2 x + 1" by (rule pow2_less_D)
  have "(2::rat) powi (ilog2 x) < 2 powi (k + 1)" using lo assms(3) by simp
  then have b: "ilog2 x < k + 1" by (rule pow2_less_D)
  from a b show ?thesis by simp
qed


lemma round_even_of_int [simp]: "round_even (of_int n) = n"
  by (simp add: round_even_def)

lemma round_even_ge_floor: "\<lfloor>q\<rfloor> \<le> round_even q"
  by (simp add: round_even_def Let_def)

lemma round_even_le_ceiling: "round_even q \<le> \<lfloor>q\<rfloor> + 1"
  by (simp add: round_even_def Let_def)

lemma round_even_mono_int: "of_int n \<le> q \<Longrightarrow> n \<le> round_even q"
  using round_even_ge_floor [of q] le_floor_iff [of n q] by linarith

lemma round_even_le_int: "q \<le> of_int n \<Longrightarrow> round_even q \<le> n"
proof (cases "q = of_int n")
  case True
  then show ?thesis by simp
next
  case False
  assume "q \<le> of_int n"
  with False have "q < of_int n" by simp
  then have "\<lfloor>q\<rfloor> < n" by (simp add: floor_less_iff)
  with round_even_le_ceiling [of q] show ?thesis by simp
qed

lemma fl_neg: "fl (- x) = js_neg (fl x)"
  by (cases "0 < x") (auto simp add: fl_def Let_def sgn_if)

lemma powi_split: "(2::rat) powi (a + b) = 2 powi a * 2 powi b"
  by (simp add: power_int_add)

text \<open>The value of a positive number in the normal range, given its binary exponent.\<close>

lemma fl_normal:
  assumes "0 < x" and lo: "2 powi k \<le> x" and hi: "x < 2 powi (k + 1)"
    and "- 1022 \<le> k" and "k \<le> 1022"
  shows "fl x = Num (of_int (round_even (x / 2 powi (k - 52))) * 2 powi (k - 52))"
proof -
  have k: "ilog2 x = k" using assms by (simp add: ilog2_unique)
  have e: "max (k - 52) (- 1074) = k - 52" using assms by simp
  define m where "m = round_even (x / 2 powi (k - 52))"
  have "x / 2 powi (k - 52) \<le> 2 powi (k + 1) / 2 powi (k - 52)"
    using hi by (intro divide_right_mono) simp_all
  also have "\<dots> = 2 powi 53" by (simp add: power_int_diff [symmetric])
  finally have "x / 2 powi (k - 52) \<le> of_int (2 ^ 53)" by simp
  then have m53: "m \<le> 2 ^ 53" unfolding m_def by (rule round_even_le_int)
  have m53': "(of_int m :: rat) \<le> of_int (2 ^ 53)" using m53 by (simp only: of_int_le_iff)
  have "of_int m * 2 powi (k - 52) \<le> (of_int (2 ^ 53) :: rat) * 2 powi (k - 52)"
    using m53' by (rule mult_right_mono) simp
  also have "\<dots> = 2 powi (k + 1)" using powi_split [of 53 "k - 52"] by (simp add: add.commute)
  also have "\<dots> \<le> 2 powi 1023" using assms by (intro power_int_increasing) simp_all
  also have "\<dots> < 2 ^ 1024" by simp
  finally have no: "\<not> 2 ^ 1024 \<le> (of_int m :: rat) * 2 powi (k - 52)" by simp
  show ?thesis
    using assms(1) no by (simp add: fl_def Let_def k e m_def)
qed

lemma fl_int_pos:
  assumes "0 < n" and "n < 2 ^ 53"
  shows "fl (of_int n) = Num (of_int n)"
proof -
  let ?x = "of_int n :: rat"
  have x1: "1 \<le> ?x" using assms by simp
  have xpos: "0 < ?x" using assms by simp
  define k where "k = ilog2 ?x"
  from ilog2_bounds [OF xpos]
  have lo: "2 powi k \<le> ?x" and hi: "?x < 2 powi (k + 1)" by (simp_all add: k_def)
  have k0: "0 \<le> k"
  proof (rule ccontr)
    assume "\<not> 0 \<le> k"
    then have "k + 1 \<le> 0" by simp
    then have "(2::rat) powi (k + 1) \<le> 2 powi 0" by (intro power_int_increasing) simp_all
    with hi x1 show False by simp
  qed
  have "?x < of_int (2 ^ 53)" using assms(2) by (simp only: of_int_less_iff)
  then have "?x < 2 powi 53" by simp
  with lo have "(2::rat) powi k < 2 powi 53" by simp
  then have k52: "k \<le> 52" using pow2_less_D [of k 53] by simp
  have "?x / 2 powi (k - 52) = ?x * 2 powi (52 - k)"
    by (simp add: power_int_diff field_simps)
  also have "\<dots> = ?x * 2 ^ nat (52 - k)" using k52 by (simp add: power_int_nonneg_exp)
  also have "\<dots> = of_int (n * 2 ^ nat (52 - k))" by simp
  finally have q: "?x / 2 powi (k - 52) = of_int (n * 2 ^ nat (52 - k))" .
  have "fl ?x = Num (of_int (round_even (?x / 2 powi (k - 52))) * 2 powi (k - 52))"
    using xpos lo hi k0 k52 by (intro fl_normal) simp_all
  also have "\<dots> = Num (of_int (n * 2 ^ nat (52 - k)) * 2 powi (k - 52))"
    by (simp only: q round_even_of_int)
  also have "of_int (n * 2 ^ nat (52 - k)) * (2::rat) powi (k - 52) = ?x"
    using q by (simp add: field_simps)
  finally show ?thesis .
qed

lemma fl_int: "\<bar>n\<bar> < 2 ^ 53 \<Longrightarrow> fl (of_int n) = Num (of_int n)"
proof -
  assume a: "\<bar>n\<bar> < 2 ^ 53"
  consider "n = 0" | "0 < n" | "n < 0" by linarith
  then show ?thesis
  proof cases
    case 1
    then show ?thesis by (simp add: fl_def)
  next
    case 2
    then show ?thesis using a by (intro fl_int_pos) simp_all
  next
    case 3
    then have "fl (of_int (- n)) = Num (of_int (- n))" using a by (intro fl_int_pos) simp_all
    then have "js_neg (fl (of_int n)) = Num (- of_int n)" by (simp add: fl_neg)
    then show ?thesis by (cases "fl (of_int n)") simp_all
  qed
qed

lemma fl_Ints: "x \<in> \<int> \<Longrightarrow> \<bar>x\<bar> < 2 ^ 53 \<Longrightarrow> fl x = Num x"
proof -
  assume "x \<in> \<int>" and b: "\<bar>x\<bar> < 2 ^ 53"
  then obtain n where x: "x = of_int n" by (auto elim: Ints_cases)
  have "(of_int \<bar>n\<bar> :: rat) < of_int (2 ^ 53)" using b by (simp add: x)
  then have "\<bar>n\<bar> < 2 ^ 53" by (simp only: of_int_less_iff)
  then show ?thesis by (simp add: x fl_int)
qed

lemma floor_rat_numeral: "\<lfloor>numeral a / numeral b :: rat\<rfloor> = numeral a div numeral b"
  by (metis floor_divide_of_int_eq of_int_numeral)

lemma round_even_quotient:
  assumes "0 < b"
  shows "round_even (of_int a / of_int b) =
     (if 2 * (a mod b) < b then a div b
      else if b < 2 * (a mod b) then a div b + 1
      else if even (a div b) then a div b else a div b + 1)"
proof -
  have f: "\<lfloor>rat_of_int a / of_int b\<rfloor> = a div b" by (rule floor_divide_of_int_eq)
  have "rat_of_int a = of_int (a div b * b + a mod b)" by simp
  also have "\<dots> = of_int (a div b) * of_int b + of_int (a mod b)" by (simp only: of_int_add of_int_mult)
  finally have "rat_of_int a / of_int b = of_int (a div b) + of_int (a mod b) / of_int b"
    using assms by (simp add: field_simps)
  then have r: "rat_of_int a / of_int b - of_int (a div b) = of_int (a mod b) / of_int b" by simp
  have c1: "(rat_of_int (a mod b) / of_int b < 1 / 2) = (2 * (a mod b) < b)"
  proof -
    have "(rat_of_int (a mod b) / of_int b < 1 / 2) = (rat_of_int (2 * (a mod b)) < of_int b)"
      using assms by (simp add: field_simps)
    then show ?thesis by (simp only: of_int_less_iff)
  qed
  have c2: "(1 / 2 < rat_of_int (a mod b) / of_int b) = (b < 2 * (a mod b))"
  proof -
    have "(1 / 2 < rat_of_int (a mod b) / of_int b) = (rat_of_int b < of_int (2 * (a mod b)))"
      using assms by (simp add: field_simps)
    then show ?thesis by (simp only: of_int_less_iff)
  qed
  show ?thesis
    unfolding round_even_def Let_def f r c1 c2 ..
qed

lemma round_even_numeral:
  "round_even (numeral a / numeral b) =
     (if 2 * (numeral a mod numeral b) < (numeral b :: int) then numeral a div numeral b
      else if numeral b < 2 * (numeral a mod numeral b :: int) then numeral a div numeral b + 1
      else if even (numeral a div numeral b :: int) then numeral a div numeral b
      else numeral a div numeral b + 1)"
  using round_even_quotient [of "numeral b" "numeral a"] by simp


lemma round_even_numeral_int [simp]: "round_even (numeral a) = numeral a"
  using round_even_of_int [of "numeral a"] by simp


lemma round_even_nonneg: "0 \<le> q \<Longrightarrow> 0 \<le> round_even q"
  using round_even_mono_int [of 0 q] by simp

lemma fl_nonneg:
  assumes "0 \<le> x"
  shows "fl x = PosInf \<or> (\<exists>r. fl x = Num r \<and> 0 \<le> r)"
proof (cases "x = 0")
  case True
  then show ?thesis by (simp add: fl_def)
next
  case False
  with assms have xpos: "0 < x" by simp
  have "0 \<le> round_even (x / 2 powi max (ilog2 x - 52) (- 1074))"
    using xpos by (intro round_even_nonneg) simp
  then show ?thesis
    using xpos by (simp add: fl_def Let_def)
qed

subsection \<open>Guide-line statistics\<close>











subsection \<open>Fields the chart operations leave alone\<close>

lemma upsertLineDataset_fields [simp]:
  "dataset (upsertLineDataset i v col l s) = dataset s"
  "rawPoints (upsertLineDataset i v col l s) = rawPoints s"
  "showWeighted (upsertLineDataset i v col l s) = showWeighted s"
  "finalized (upsertLineDataset i v col l s) = finalized s"
  "x_min (upsertLineDataset i v col l s) = x_min s"
  "minPointTs (upsertLineDataset i v col l s) = minPointTs s"
  by (simp_all add: upsertLineDataset_def Let_def)

lemma addStatsLines_fields [simp]:
  "dataset (addStatsLines s) = dataset s"
  "rawPoints (addStatsLines s) = rawPoints s"
  "showWeighted (addStatsLines s) = showWeighted s"
  "finalized (addStatsLines s) = finalized s"
  "x_min (addStatsLines s) = x_min s"
  "minPointTs (addStatsLines s) = minPointTs s"
  by (simp_all add: addStatsLines_def Let_def split: prod.splits option.splits)

lemma toggleMode_fields:
  "showWeighted (toggleMode s) = (\<not> showWeighted s)"
  "rawPoints (toggleMode s) = rawPoints s"
  "dataset (toggleMode s) =
     map (\<lambda>p. p\<lparr>py := Math_round (if \<not> showWeighted s then d_weightedEff p
                                     else d_efficiency p)\<rparr>) (dataset s)"
  "x_min (toggleMode s) = x_min s"
  "minPointTs (toggleMode s) = minPointTs s"
  by (simp_all add: toggleMode_def Let_def resetGuideLines_def)

lemma addStatsLines_empty:
  "dataset s = [] \<Longrightarrow> y_max s = None \<Longrightarrow> addStatsLines s = s"
  by (simp add: addStatsLines_def stats_def yValues_def Math_max_def)

subsection \<open>Mode toggling\<close>

lemma project_remap:
  "(project w p)\<lparr>py := Math_round (if w' then d_weightedEff (project w p)
                                      else d_efficiency (project w p))\<rparr> = project w' p"
  by (simp add: project_def projected_y_def)

lemma projection_inv_toggleMode: "projection_inv s \<Longrightarrow> projection_inv (toggleMode s)"
  by (simp add: projection_inv_def toggleMode_fields project_remap o_def)

lemma projection_inv_pushPoint: "projection_inv s \<Longrightarrow> projection_inv (pushPoint s p pad)"
  by (simp add: projection_inv_def pushPoint_def Let_def project_def projected_y_def
           split: option.splits)

lemma projection_inv_step: "projection_inv s \<Longrightarrow> projection_inv (apply_chart_op s op)"
  by (cases op) (simp_all add: projection_inv_toggleMode projection_inv_pushPoint,
                 simp_all add: projection_inv_def finalize_def)

lemma projection_inv_run: "projection_inv s \<Longrightarrow> projection_inv (run_chart s ops)"
  unfolding run_chart_def
  by (induction ops arbitrary: s) (simp_all add: projection_inv_step)

lemma projection_inv_init: "projection_inv (EfficiencyScatter a b c)"
  by (simp add: projection_inv_def EfficiencyScatter_def)

text \<open>
  Claim C7. In every state a chart reaches from its constructor by pushes, toggles,
  finalize and addStatsLines, toggling the mode twice gives back the projected y value of
  every plotted point, the mode and the stored raw points; the plotted y values are the
  projection of the stored raw points in the current mode, so nothing is rounded twice.
\<close>

theorem toggleMode_twice_roundtrip:
  "map py (dataset (toggleMode (toggleMode (run_chart (EfficiencyScatter a b c) ops))))
     = map py (dataset (run_chart (EfficiencyScatter a b c) ops))
   \<and> map py (dataset (run_chart (EfficiencyScatter a b c) ops))
     = map (projected_y (showWeighted (run_chart (EfficiencyScatter a b c) ops)))
           (rawPoints (run_chart (EfficiencyScatter a b c) ops))
   \<and> showWeighted (toggleMode (toggleMode (run_chart (EfficiencyScatter a b c) ops)))
     = showWeighted (run_chart (EfficiencyScatter a b c) ops)
   \<and> rawPoints (toggleMode (toggleMode (run_chart (EfficiencyScatter a b c) ops)))
     = rawPoints (run_chart (EfficiencyScatter a b c) ops)"
proof -
  define s where "s = run_chart (EfficiencyScatter a b c) ops"
  have inv: "projection_inv s"
    unfolding s_def by (rule projection_inv_run [OF projection_inv_init])
  then have inv2: "projection_inv (toggleMode (toggleMode s))"
    by (intro projection_inv_toggleMode)
  have sw: "showWeighted (toggleMode (toggleMode s)) = showWeighted s"
    by (simp add: toggleMode_fields)
  have rp: "rawPoints (toggleMode (toggleMode s)) = rawPoints s"
    by (simp add: toggleMode_fields)
  have "dataset (toggleMode (toggleMode s)) = dataset s"
    using inv inv2 by (simp add: projection_inv_def sw rp)
  moreover have "map py (dataset s) = map (projected_y (showWeighted s)) (rawPoints s)"
    using inv by (simp add: projection_inv_def project_def o_def)
  ultimately show ?thesis using sw rp unfolding s_def by simp
qed

theorem toggleMode_twice_roundtrip_witness:
  "map py (dataset three_point_chart) = [Num 30, Num 10, Num 20]
   \<and> map py (dataset (toggleMode three_point_chart)) = [Num 3, Num 1, Num 2]
   \<and> map py (dataset (toggleMode (toggleMode three_point_chart))) = [Num 30, Num 10, Num 20]"
proof -
  have ys: "map py (dataset three_point_chart) = [Num 30, Num 10, Num 20]"
    by (simp add: three_point_chart_def run_chart_def EfficiencyScatter_def pushPoint_def
          Let_def example_point_def js_gt_def fl_Ints)
  have ws: "map py (dataset (toggleMode three_point_chart)) = [Num 3, Num 1, Num 2]"
    by (simp add: toggleMode_fields,
        simp add: three_point_chart_def run_chart_def EfficiencyScatter_def pushPoint_def
          Let_def example_point_def js_gt_def fl_Ints)
  have "map py (dataset (toggleMode (toggleMode three_point_chart)))
          = map py (dataset three_point_chart)"
    using toggleMode_twice_roundtrip [of "Num 1000" "Num 2000" "Num 0"
        "[Push (example_point 1100 30 3) None, Push (example_point 1200 10 1) None,
          Push (example_point 1300 20 2) None]"]
    by (simp add: three_point_chart_def)
  with ys ws show ?thesis by simp
qed

subsection \<open>Axis bounds while points stream in\<close>

lemma js_lt_NegInf: "\<not> js_lt v NegInf"
  by (cases v) simp_all

text \<open>\<^verbatim>\<open>_minPointTs\<close> starts at minus infinity and no timestamp is below it, so the
  branch that lowers the x-axis minimum is never taken: in every state a chart reaches,
  the minimum is still the start of the window.\<close>

lemma run_chart_xMin_fixed:
  "x_min (run_chart (EfficiencyScatter start end ybase) ops) = start
   \<and> minPointTs (run_chart (EfficiencyScatter start end ybase) ops) = NegInf"
proof -
  have step: "minPointTs (apply_chart_op s op) = NegInf
              \<and> x_min (apply_chart_op s op) = x_min s"
    if "minPointTs s = NegInf" for s op
    using that
    by (cases op) (simp_all add: pushPoint_def Let_def js_lt_NegInf toggleMode_fields
                        finalize_def split: option.splits)
  have run: "minPointTs (foldl apply_chart_op s ops) = NegInf
             \<and> x_min (foldl apply_chart_op s ops) = x_min s"
    if "minPointTs s = NegInf" for s
    using that by (induction ops arbitrary: s) (simp_all add: step)
  show ?thesis
    using run [of "EfficiencyScatter start end ybase"]
    by (simp add: run_chart_def EfficiencyScatter_def)
qed

text \<open>
  Claim C4, the code at an out-of-window point. The chart's x-axis starts at 1000000; a
  point with timestamp 500 is accepted and stored, and the x-axis minimum stays at 1000000.
\<close>

theorem out_of_window_point_keeps_xMin:
  "x_min example_chart = Num 1000000
   \<and> js_lt (tsMs (example_point 500 50 25)) (x_min example_chart)
   \<and> rawPoints (pushPoint example_chart (example_point 500 50 25) None)
       = [example_point 500 50 25]
   \<and> x_min (pushPoint example_chart (example_point 500 50 25) None) = Num 1000000"
  by (simp add: example_chart_def EfficiencyScatter_def pushPoint_def example_point_def
        Let_def fl_Ints)

theorem out_of_window_point_keeps_xMin_witness:
  "x_min (pushPoint example_chart (example_point 500 50 25) None) = x_min example_chart
   \<and> length (rawPoints (pushPoint example_chart (example_point 500 50 25) None)) = 1"
  using out_of_window_point_keeps_xMin by simp









text \<open>The stored maximum 0 is the one value the test \<^verbatim>\<open>!yScale.max\<close> takes for an
  unset maximum: after a push with y = -5 and the default pad the maximum is 0, and the
  next push overwrites it with a lower candidate. No point with a y value of 0 or more
  leads there.\<close>

lemma zero_maximum_is_overwritten:
  "y_max (run_chart example_chart [Push (example_point 1100000 (- 5) 0) None])
       = Some (Num 0)
   \<and> y_max (run_chart example_chart [Push (example_point 1100000 (- 5) 0) None,
                                       Push (example_point 1200000 (- 20) 0) None])
       = Some (Num (- 15))"
  by (simp add: example_chart_def EfficiencyScatter_def run_chart_def pushPoint_def
        example_point_def Let_def js_gt_def fl_Ints)



subsection \<open>Rejected points\<close>

text \<open>
  Claim C8, the code in WEIGHTED mode at a point whose weighted efficiency is NaN and whose
  raw efficiency is 50. The y value of the active mode is not finite, and the point is
  stored and plotted all the same.
\<close>

theorem nan_weighted_point_is_appended:
  "showWeighted weighted_chart
   \<and> rawPoints weighted_chart = [] \<and> y_max weighted_chart = None
   \<and> \<not> isFinite (projected_y (showWeighted weighted_chart) nan_weighted_point)
   \<and> rawPoints (pushPoint weighted_chart nan_weighted_point None) = [nan_weighted_point]
   \<and> map py (dataset (pushPoint weighted_chart nan_weighted_point None)) = [NaN]"
  by (simp add: weighted_chart_def example_chart_def EfficiencyScatter_def toggleMode_def
        resetGuideLines_def addStatsLines_def pushPoint_def nan_weighted_point_def
        projected_y_def Let_def)

text \<open>
  Claim C8 as amended. The guard of \<^verbatim>\<open>pushPoint\<close> tests the timestamp and the raw
  efficiency, whatever the mode: when either is not finite the push changes nothing (no
  stored point, no plotted point, no axis bound); when both are finite the point is stored
  in \<^verbatim>\<open>_rawPoints\<close> and plotted with the y value of the current mode, also when
  that value is not finite.
\<close>

theorem pushPoint_guard:
  "(\<not> isFinite (tsMs p) \<or> \<not> isFinite (efficiency p) \<longrightarrow> pushPoint s p pad = s)
   \<and> (isFinite (tsMs p) \<and> isFinite (efficiency p) \<longrightarrow>
        rawPoints (pushPoint s p pad) = rawPoints s @ [p]
        \<and> dataset (pushPoint s p pad) = dataset s @ [project (showWeighted s) p])"
  by (simp add: pushPoint_def Let_def project_def projected_y_def split: option.splits)

theorem pushPoint_guard_witness:
  "\<not> isFinite (tsMs (nan_weighted_point\<lparr>tsMs := PosInf\<rparr>))
   \<and> pushPoint weighted_chart (nan_weighted_point\<lparr>tsMs := PosInf\<rparr>) None = weighted_chart
   \<and> \<not> isFinite (efficiency (nan_weighted_point\<lparr>efficiency := NaN\<rparr>))
   \<and> pushPoint example_chart (nan_weighted_point\<lparr>efficiency := NaN\<rparr>) None = example_chart
   \<and> isFinite (tsMs nan_weighted_point) \<and> isFinite (efficiency nan_weighted_point)
   \<and> rawPoints (pushPoint weighted_chart nan_weighted_point None)
       = rawPoints weighted_chart @ [nan_weighted_point]
   \<and> dataset (pushPoint weighted_chart nan_weighted_point None)
       = dataset weighted_chart @ [project (showWeighted weighted_chart) nan_weighted_point]"
proof -
  have a: "\<not> isFinite (tsMs (nan_weighted_point\<lparr>tsMs := PosInf\<rparr>))"
    and b: "\<not> isFinite (efficiency (nan_weighted_point\<lparr>efficiency := NaN\<rparr>))"
    and c: "isFinite (tsMs nan_weighted_point) \<and> isFinite (efficiency nan_weighted_point)"
    by (simp_all add: nan_weighted_point_def)
  from a b c
    pushPoint_guard [of "nan_weighted_point\<lparr>tsMs := PosInf\<rparr>" weighted_chart None]
    pushPoint_guard [of "nan_weighted_point\<lparr>efficiency := NaN\<rparr>" example_chart None]
    pushPoint_guard [of nan_weighted_point weighted_chart None]
  show ?thesis by blast
qed

subsection \<open>The post cache\<close>

lemma getPostCached_hit:
  "entries c (keyFor a p) = Some f \<Longrightarrow> getPostCached R c a p t = (f, c)"
  by (simp add: getPostCached_def)

lemma getPostCached_keeps:
  "entries c k = Some f \<Longrightarrow> entries (snd (getPostCached R c a p t)) k = Some f"
  by (auto simp add: getPostCached_def Let_def split: option.splits)

lemma getPostCached_stores:
  "getPostCached R c a p t = (f, c1) \<Longrightarrow> entries c1 (keyFor a p) = Some f"
  by (auto simp add: getPostCached_def Let_def split: option.splits)

lemma resolve_all_keeps:
  "entries c k = Some f \<Longrightarrow> entries (resolve_all R c calls) k = Some f"
  by (induction R c calls rule: resolve_all.induct) (simp_all add: getPostCached_keeps)

text \<open>With a rejected promise cached for the key, no attempt of the retry loop succeeds:
  a 503 runs the loop to its end without a post, any other error leaves it at once.\<close>

lemma fetch_histPost_rejected:
  "entries c (keyFor a p) = Some f \<Longrightarrow> settled f = Inl e \<Longrightarrow>
   fetch_histPost R n c a p t h =
     (if n = 0 \<or> is503 e then Inr (h, c) else Inl (ReferenceError ''error''))"
  by (induction n) (simp_all add: getPostCached_hit)

lemma is503_err404: "\<not> is503 err404"
  by (simp add: is503_def err404_def)

lemma is503_err503: "is503 err503"
  by (simp add: is503_def err503_def)

lemma carol_first_eval:
  "carol_first =
     (\<lparr> fid = 0, settled = Inr (example_post ''carol'' ''post'' (Num 1000)) \<rparr>,
      \<lparr> entries = [''carol/post'' \<mapsto>
           \<lparr> fid = 0, settled = Inr (example_post ''carol'' ''post'' (Num 1000)) \<rparr>],
        started = Suc 0 \<rparr>)"
  by (simp add: carol_first_def getPostCached_def postCache_def keyFor_def
        example_resolver_def Let_def)

lemma dave_first_eval:
  "dave_first =
     (\<lparr> fid = 0, settled = Inl err503 \<rparr>,
      \<lparr> entries = [''dave/post'' \<mapsto> \<lparr> fid = 0, settled = Inl err503 \<rparr>],
        started = Suc 0 \<rparr>)"
  by (simp add: dave_first_def getPostCached_def postCache_def keyFor_def
        example_resolver_def Let_def)

text \<open>
  Claim C5. After a resolve call for an (author, permlink) pair returned a promise, every
  later call for the same pair, whatever its time argument and whatever other requests the
  cache served in between, returns that same promise and starts no resolution (the cache
  is unchanged by it). When the first call found no entry for the key, the promise is the
  one it created, settled by the resolution run with the first caller's time.
\<close>

theorem same_key_same_future:
  assumes "getPostCached R c a p t1 = (f1, c1)"
  shows "getPostCached R (resolve_all R c1 calls) a p t2 = (f1, resolve_all R c1 calls)
         \<and> (entries c (keyFor a p) = None \<longrightarrow>
              fid f1 = started c \<and> settled f1 = R (started c) a p t1)"
proof -
  have "entries (resolve_all R c1 calls) (keyFor a p) = Some f1"
    using assms by (intro resolve_all_keeps getPostCached_stores)
  then have "getPostCached R (resolve_all R c1 calls) a p t2 = (f1, resolve_all R c1 calls)"
    by (rule getPostCached_hit)
  moreover have "entries c (keyFor a p) = None \<longrightarrow>
              fid f1 = started c \<and> settled f1 = R (started c) a p t1"
    using assms by (auto simp add: getPostCached_def Let_def)
  ultimately show ?thesis by simp
qed

theorem same_key_same_future_witness:
  "getPostCached example_resolver postCache ''carol'' ''post'' (Num 1000)
     = (fst carol_first, snd carol_first)
   \<and> entries postCache (keyFor ''carol'' ''post'') = None
   \<and> getPostCached example_resolver
        (resolve_all example_resolver (snd carol_first) [(''dave'', ''post'', Num 7)])
        ''carol'' ''post'' (Num 2000)
     = (fst carol_first,
        resolve_all example_resolver (snd carol_first) [(''dave'', ''post'', Num 7)])
   \<and> settled (fst carol_first) = Inr (example_post ''carol'' ''post'' (Num 1000))
   \<and> example_post ''carol'' ''post'' (Num 1000) \<noteq> example_post ''carol'' ''post'' (Num 2000)"
proof -
  have h: "getPostCached example_resolver postCache ''carol'' ''post'' (Num 1000)
             = (fst carol_first, snd carol_first)"
    by (simp add: carol_first_def)
  have e: "entries postCache (keyFor ''carol'' ''post'') = None"
    by (simp add: postCache_def)
  have d: "example_post ''carol'' ''post'' (Num 1000)
             \<noteq> example_post ''carol'' ''post'' (Num 2000)"
    by (simp add: example_post_def)
  have s: "settled (fst carol_first) = Inr (example_post ''carol'' ''post'' (Num 1000))"
    by (simp add: carol_first_eval)
  from same_key_same_future [OF h, of "[(''dave'', ''post'', Num 7)]" "Num 2000"] h e d s
  show ?thesis by blast
qed

text \<open>
  Claim C10. Once a resolve call for a key returned a promise that rejects, every later
  call for the key, after any other requests on the shared cache, returns that same
  rejected promise and starts no resolution; so the five attempts of the retry loop for
  that key never obtain a post: with a 503 error the loop ends without one, with any
  other error it is left with an exception at the first attempt.
\<close>

theorem rejected_future_stays_cached:
  assumes "getPostCached R c a p t = (f, c1)" and "settled f = Inl e"
  shows "getPostCached R (resolve_all R c1 calls) a p t' = (f, resolve_all R c1 calls)
         \<and> fetch_histPost R 5 (resolve_all R c1 calls) a p t' None =
             (if is503 e then Inr (None, resolve_all R c1 calls)
              else Inl (ReferenceError ''error''))"
proof -
  have ent: "entries (resolve_all R c1 calls) (keyFor a p) = Some f"
    using assms(1) by (intro resolve_all_keeps getPostCached_stores)
  then have "getPostCached R (resolve_all R c1 calls) a p t' = (f, resolve_all R c1 calls)"
    by (rule getPostCached_hit)
  moreover have "fetch_histPost R 5 (resolve_all R c1 calls) a p t' None =
             (if is503 e then Inr (None, resolve_all R c1 calls)
              else Inl (ReferenceError ''error''))"
    using fetch_histPost_rejected [OF ent assms(2), of R 5 t' None] by simp
  ultimately show ?thesis by simp
qed

theorem rejected_future_stays_cached_witness:
  "getPostCached example_resolver postCache ''dave'' ''post'' (Num 1000)
     = (fst dave_first, snd dave_first)
   \<and> settled (fst dave_first) = Inl err503
   \<and> getPostCached example_resolver
        (resolve_all example_resolver (snd dave_first) [(''carol'', ''post'', Num 7)])
        ''dave'' ''post'' (Num 2000)
     = (fst dave_first,
        resolve_all example_resolver (snd dave_first) [(''carol'', ''post'', Num 7)])
   \<and> fetch_histPost example_resolver 5
        (resolve_all example_resolver (snd dave_first) [(''carol'', ''post'', Num 7)])
        ''dave'' ''post'' (Num 2000) None
     = Inr (None,
            resolve_all example_resolver (snd dave_first) [(''carol'', ''post'', Num 7)])"
proof -
  have h: "getPostCached example_resolver postCache ''dave'' ''post'' (Num 1000)
             = (fst dave_first, snd dave_first)"
    by (simp add: dave_first_def)
  have s: "settled (fst dave_first) = Inl err503"
    by (simp add: dave_first_eval)
  from rejected_future_stays_cached [OF h s, of "[(''carol'', ''post'', Num 7)]" "Num 2000"]
    h s is503_err503
  show ?thesis by simp
qed

subsection \<open>The aggregator\<close>

lemma js_lt_not_le: "js_lt (Num 0) v \<Longrightarrow> \<not> js_le v (Num 0)"
  by (cases v) simp_all

text \<open>Quotients, products and roundings of numbers that are not negative are not
  negative.\<close>

lemma nonneg_num_fl: "0 \<le> x \<Longrightarrow> nonneg_num (fl x)"
  using fl_nonneg [of x] by auto

lemma nonneg_num_pos: "js_lt (Num 0) v \<Longrightarrow> nonneg_num v"
  by (cases v) simp_all

lemma nonneg_num_div: "nonneg_num a \<Longrightarrow> nonneg_num b \<Longrightarrow> nonneg_num (js_div a b)"
  by (cases a; cases b) (auto simp add: nonneg_num_fl)

lemma nonneg_num_mul: "nonneg_num a \<Longrightarrow> nonneg_num b \<Longrightarrow> nonneg_num (js_mul a b)"
  by (cases a; cases b) (auto simp add: nonneg_num_fl)

lemma nonneg_num_round: "nonneg_num a \<Longrightarrow> nonneg_num (Math_round a)"
  by (cases a) (simp_all add: round_def)

lemma nonneg_num_not_le: "\<not> js_le v (Num 0) \<Longrightarrow> nonneg_num v"
  by (cases v) simp_all

text \<open>Whatever the event, the snapshot and the vote: a point that
  \<^verbatim>\<open>prefetchEfficiencyData\<close> emits has an efficiency that is not negative, since the
  guards let only quantities through that are not \<^verbatim>\<open><= 0\<close>. These are the points
  \<^verbatim>\<open>pushPoint\<close> receives.\<close>

lemma guarded_efficiency_nonneg:
  "\<not> js_le ev (Num 0) \<Longrightarrow> \<not> js_le tv (Num 0) \<Longrightarrow> \<not> js_le vr (Num 0) \<Longrightarrow>
   \<not> js_le tr (Num 0) \<Longrightarrow>
   nonneg_num (Math_round (js_mul (js_div (js_div ev tv) (js_div vr tr)) (Num 100)))"
  by (intro nonneg_num_round nonneg_num_mul nonneg_num_div nonneg_num_not_le) simp_all

lemma emitted_efficiency_nonneg:
  assumes "process_reward R rw (c, t) = Inr (c'', t')"
    and "efficiencyData t' \<noteq> efficiencyData t"
  shows "\<exists>pt. efficiencyData t' = efficiencyData t @ [pt]
            \<and> tip_scatter t' = map_option (\<lambda>sc. pushPoint sc pt None) (tip_scatter t)
            \<and> nonneg_num (efficiency pt)"
  using assms
  unfolding process_reward_def
  by (auto simp add: Let_def guarded_efficiency_nonneg
           split: if_splits option.splits sum.splits prod.splits)

lemma example_tip_scatter: "tip_scatter example_tip = Some example_chart"
  by (simp add: example_tip_def VoterTip_def)

text \<open>With a resolved promise for the key, the loop returns its post.\<close>

lemma fetch_histPost_hits:
  "entries c (keyFor a p) = Some f \<Longrightarrow> settled f = Inr hp \<Longrightarrow>
   fetch_histPost R n c a p t h = Inr (if n = 0 then h else Some hp, c)"
  by (induction n arbitrary: h) (simp_all add: getPostCached_hit)

lemma fetch_histPost_resolved:
  assumes "getPostCached R c a p t = (f, c1)" and "settled f = Inr hp"
  shows "fetch_histPost R (Suc n) c a p t h = Inr (Some hp, c1)"
  using assms fetch_histPost_hits [OF getPostCached_stores [OF assms(1)] assms(2), of R n t "Some hp"]
  by (cases n) simp_all

lemma fetch_carol:
  "fetch_histPost example_resolver 5 postCache ''carol'' ''post'' (Num 1000) None
     = Inr (Some (example_post ''carol'' ''post'' (Num 1000)), snd carol_first)"
  by (simp add: eval_nat_numeral getPostCached_def Let_def postCache_def keyFor_def
        example_resolver_def carol_first_eval)

lemma fetch_ninth:
  "fetch_histPost ninth_resolver 5 postCache ''carol'' ''post'' (Num 1000) None
     = Inr (Some (ninth_post ''carol'' ''post''),
            snd (getPostCached ninth_resolver postCache ''carol'' ''post'' (Num 1000)))"
proof -
  have "settled (fst (getPostCached ninth_resolver postCache ''carol'' ''post'' (Num 1000)))
          = Inr (ninth_post ''carol'' ''post'')"
    by (simp add: getPostCached_def postCache_def ninth_resolver_def Let_def)
  from fetch_histPost_resolved [OF prod.collapse [symmetric] this, of 4 None]
  show ?thesis by simp
qed

lemma fetch_alice:
  "fetch_histPost example_resolver 5 postCache ''alice'' ''post'' (Num 1000) None
     = Inl (ReferenceError ''error'')"
  by (simp add: eval_nat_numeral getPostCached_def Let_def postCache_def
        example_resolver_def is503_err404)

lemma process_alice:
  "process_reward example_resolver (example_reward ''alice'') (postCache, example_tip)
     = Inl (ReferenceError ''error'')"
  by (simp add: process_reward_def example_reward_def fetch_alice)

text \<open>The doubles of the two examples: 4e7/1e6/9, its reciprocal and the percentage; 5/100,
  100/1000, 0.29 and 50 times 0.29.\<close>

lemma fl_40_9: "fl (40 / 9) = Num (2501999792983609 / 562949953421312)"
  by (subst fl_normal [where k = 2]) (simp_all add: round_even_numeral)

lemma fl_inv_40_9:
  "fl (562949953421312 / 2501999792983609) = Num (2026619832316723 / 9007199254740992)"
  by (subst fl_normal [where k = "- 3"]) (simp_all add: round_even_numeral)

lemma fl_pct_ninth:
  "fl (50665495807918075 / 2251799813685248) = Num (6333186975989759 / 281474976710656)"
  by (subst fl_normal [where k = 4]) (simp_all add: round_even_numeral)

lemma fl_1_20: "fl (1 / 20) = Num (3602879701896397 / 72057594037927936)"
  by (subst fl_normal [where k = "- 5"]) (simp_all add: round_even_numeral)

lemma fl_1_10: "fl (1 / 10) = Num (3602879701896397 / 36028797018963968)"
  by (subst fl_normal [where k = "- 4"]) (simp_all add: round_even_numeral)

lemma fl_half: "fl (1 / 2) = Num (1 / 2)"
  by (subst fl_normal [where k = "- 1"]) (simp_all add: round_even_numeral)

lemma fl_29_100: "fl (29 / 100) = Num (5224175567749775 / 18014398509481984)"
  by (subst fl_normal [where k = "- 2"]) (simp_all add: round_even_numeral)

lemma fl_50_times_29_100:
  "fl (130604389193744375 / 9007199254740992) = Num (8162774324609023 / 562949953421312)"
  by (subst fl_normal [where k = 3]) (simp_all add: round_even_numeral)

lemmas double_values =
  fl_Ints fl_40_9 fl_inv_40_9 fl_pct_ninth fl_1_20 fl_1_10 fl_half fl_29_100
  fl_50_times_29_100 round_def floor_rat_numeral

text \<open>
  Claim C1, the code at two events. With vests 1 of 1 and rshares 40 of 9 the exact
  quotient is 22.5, which rounds to 23; the doubles \<^verbatim>\<open>(1 / (40 / 9)) * 100\<close> give
  22.499999999999996 and the emitted efficiency is 22. With efficiency 50 and a vote
  weight of 2900 the exact product is 14.5, which rounds to 15; the doubles
  \<^verbatim>\<open>50 * (2900 / 10000)\<close> give 14.499999999999998 and the emitted weighted efficiency
  is 14.
\<close>

theorem efficiency_differs_from_exact_formula:
  "map efficiency (emitted (process_reward ninth_resolver ninth_reward (postCache, ninth_tip)))
     = [Num 22]
   \<and> round (100 * (1 / 1) / (40000000 / 1000000 / 9) :: rat) = 23
   \<and> map efficiency (emitted (process_reward example_resolver (example_reward ''carol'')
                                (postCache, light_tip))) = [Num 50]
   \<and> map weightedEff (emitted (process_reward example_resolver (example_reward ''carol'')
                                 (postCache, light_tip))) = [Num 14]
   \<and> round (50 * 2900 / 10000 :: rat) = 15"
proof (intro conjI)
  show "map efficiency (emitted (process_reward ninth_resolver ninth_reward
          (postCache, ninth_tip))) = [Num 22]"
    by (simp add: process_reward_def ninth_reward_def fetch_ninth ninth_tip_def VoterTip_def
          ninth_post_def nullish2_def number_or_zero_def Let_def double_values)
  show "map efficiency (emitted (process_reward example_resolver (example_reward ''carol'')
          (postCache, light_tip))) = [Num 50]"
    by (simp add: process_reward_def example_reward_def fetch_carol light_tip_def
          VoterTip_def example_post_def nullish2_def number_or_zero_def Let_def
          double_values)
  show "map weightedEff (emitted (process_reward example_resolver (example_reward ''carol'')
          (postCache, light_tip))) = [Num 14]"
    by (simp add: process_reward_def example_reward_def fetch_carol light_tip_def
          VoterTip_def example_post_def nullish2_def number_or_zero_def Let_def
          double_values)
  show "round (100 * (1 / 1) / (40000000 / 1000000 / 9) :: rat) = 23"
    by (simp add: round_def floor_rat_numeral)
  show "round (50 * 2900 / 10000 :: rat) = 15"
    by (simp add: round_def floor_rat_numeral)
qed

text \<open>
  Claim C1 as amended. For a reward event with a truthy time whose snapshot resolved, with
  total vests, total rshares, the vote's rshares over 1000000 and the event's vests all
  above zero: whenever processing the event emits a point (appends it to
  \<^verbatim>\<open>efficiencyData\<close> and pushes it to the chart), the point's efficiency is
  \<^verbatim>\<open>Math.round(((eventVests / totalVests) / (voterRshares / totalRshares)) * 100)\<close> and
  its weighted efficiency is \<^verbatim>\<open>Math.round(efficiency * (percent / 10000))\<close>, each
  division and product rounded to the nearest double in this order and
  \<^verbatim>\<open>Math.round\<close> taking the floor of the double plus one half; the efficiency is never
  negative. A point is emitted when \<^verbatim>\<open>pctContributed\<close> has not underflowed to 0 and
  the snapshot has a payout value.
\<close>

theorem efficiency_in_doubles:
  assumes time: "r_time rw = Some timeSec" "truthy timeSec"
    and resolved: "fetch_histPost R 5 c (r_author rw) (r_permlink rw) timeSec None
                     = Inr (Some hp, c')"
    and tv: "tv = nullish2 (total_vests (details hp)) (totalVests (details hp))"
    and tr: "tr = nullish2 (total_rshares (details hp)) (totalRshares (details hp))"
    and ev: "ev = number_or_zero (r_vests rw)"
    and vr: "vr = js_div (rshares (tip_vote t)) (Num 1000000)"
    and pos: "js_lt (Num 0) tv" "js_lt (Num 0) tr" "js_lt (Num 0) vr" "js_lt (Num 0) ev"
  shows "(\<forall>c'' t'. process_reward R rw (c, t) = Inr (c'', t')
             \<and> efficiencyData t' \<noteq> efficiencyData t \<longrightarrow>
           (\<exists>pt. efficiencyData t' = efficiencyData t @ [pt]
              \<and> tip_scatter t' = map_option (\<lambda>sc. pushPoint sc pt None) (tip_scatter t)
              \<and> efficiency pt
                  = Math_round (js_mul (js_div (js_div ev tv) (js_div vr tr)) (Num 100))
              \<and> weightedEff pt
                  = Math_round (js_mul (efficiency pt)
                                       (js_div (percent (tip_vote t)) (Num 10000)))
              \<and> (\<forall>x. js_mul (js_div (js_div ev tv) (js_div vr tr)) (Num 100) = Num x
                    \<longrightarrow> efficiency pt = Num (of_int \<lfloor>x + 1 / 2\<rfloor>))
              \<and> nonneg_num (efficiency pt)))
         \<and> (\<not> js_le (js_div vr tr) (Num 0) \<and> total_payout_value (details hp) \<noteq> None \<longrightarrow>
            (\<exists>t' pt. process_reward R rw (c, t) = Inr (c', t')
               \<and> efficiencyData t' = efficiencyData t @ [pt]))"
proof -
  note guards = pos [THEN js_lt_not_le]
  have nn: "nonneg_num
              (Math_round (js_mul (js_div (js_div ev tv) (js_div vr tr)) (Num 100)))"
    using pos
    by (intro nonneg_num_round nonneg_num_mul nonneg_num_div nonneg_num_pos) simp_all
  have rnd: "\<forall>x. js_mul (js_div (js_div ev tv) (js_div vr tr)) (Num 100) = Num x
               \<longrightarrow> Math_round (js_mul (js_div (js_div ev tv) (js_div vr tr)) (Num 100))
                     = Num (of_int \<lfloor>x + 1 / 2\<rfloor>)"
    by (simp add: round_def)
  show ?thesis
  proof (intro conjI allI impI)
    fix c'' t'
    assume a: "process_reward R rw (c, t) = Inr (c'', t')
               \<and> efficiencyData t' \<noteq> efficiencyData t"
    show "\<exists>pt. efficiencyData t' = efficiencyData t @ [pt]
              \<and> tip_scatter t' = map_option (\<lambda>sc. pushPoint sc pt None) (tip_scatter t)
              \<and> efficiency pt
                  = Math_round (js_mul (js_div (js_div ev tv) (js_div vr tr)) (Num 100))
              \<and> weightedEff pt
                  = Math_round (js_mul (efficiency pt)
                                       (js_div (percent (tip_vote t)) (Num 10000)))
              \<and> (\<forall>x. js_mul (js_div (js_div ev tv) (js_div vr tr)) (Num 100) = Num x
                    \<longrightarrow> efficiency pt = Num (of_int \<lfloor>x + 1 / 2\<rfloor>))
              \<and> nonneg_num (efficiency pt)"
      using a time resolved guards nn rnd
      unfolding process_reward_def tv tr ev vr
      by (auto simp add: Let_def split: if_splits option.splits)
  next
    assume f: "\<not> js_le (js_div vr tr) (Num 0) \<and> total_payout_value (details hp) \<noteq> None"
    then show "\<exists>t' pt. process_reward R rw (c, t) = Inr (c', t')
               \<and> efficiencyData t' = efficiencyData t @ [pt]"
      using time resolved guards
      unfolding process_reward_def tv tr ev vr
      by (auto simp add: Let_def split: if_splits option.splits)
  qed
qed

theorem efficiency_in_doubles_witness:
  "fetch_histPost example_resolver 5 postCache ''carol'' ''post'' (Num 1000) None
     = Inr (Some (example_post ''carol'' ''post'' (Num 1000)), snd carol_first)
   \<and> (\<exists>t' pt. process_reward example_resolver (example_reward ''carol'')
                  (postCache, light_tip) = Inr (snd carol_first, t')
        \<and> efficiencyData t' = [pt] \<and> efficiency pt = Num 50 \<and> weightedEff pt = Num 14)"
proof -
  let ?rw = "example_reward ''carol''"
  let ?hp = "example_post ''carol'' ''post'' (Num 1000)"
  let ?tv = "nullish2 (total_vests (details ?hp)) (totalVests (details ?hp))"
  let ?tr = "nullish2 (total_rshares (details ?hp)) (totalRshares (details ?hp))"
  let ?ev = "number_or_zero (r_vests ?rw)"
  let ?vr = "js_div (rshares (tip_vote light_tip)) (Num 1000000)"
  have tm: "r_time ?rw = Some (Num 1000)" by (simp add: example_reward_def)
  have tt: "truthy (Num 1000)" by simp
  have res: "fetch_histPost example_resolver 5 postCache (r_author ?rw) (r_permlink ?rw)
               (Num 1000) None = Inr (Some ?hp, snd carol_first)"
    by (simp add: example_reward_def fetch_carol)
  have tv: "?tv = Num 100" by (simp add: example_post_def nullish2_def)
  have tr: "?tr = Num 1000" by (simp add: example_post_def nullish2_def)
  have ev: "?ev = Num 5" by (simp add: example_reward_def number_or_zero_def)
  have vr: "?vr = Num 100" by (simp add: light_tip_def VoterTip_def fl_Ints)
  have pc: "percent (tip_vote light_tip) = Num 2900"
    by (simp add: light_tip_def VoterTip_def)
  have tpv: "total_payout_value (details ?hp) \<noteq> None"
    by (simp add: example_post_def)
  have e0: "efficiencyData light_tip = []"
    by (simp add: light_tip_def VoterTip_def)
  have eff: "Math_round (js_mul (js_div (js_div ?ev ?tv) (js_div ?vr ?tr)) (Num 100)) = Num 50"
    by (simp add: tv tr ev vr double_values)
  have weff: "Math_round (js_mul (Num 50) (js_div (Num 2900) (Num 10000))) = Num 14"
    by (simp add: double_values)
  have ok: "\<not> js_le (js_div ?vr ?tr) (Num 0)"
    by (simp add: vr tr double_values)
  note inst = efficiency_in_doubles [OF tm tt res refl refl refl refl, of light_tip]
  have p: "js_lt (Num 0) ?tv" "js_lt (Num 0) ?tr" "js_lt (Num 0) ?vr" "js_lt (Num 0) ?ev"
    by (simp_all add: tv tr ev vr)
  note inst' = inst [OF p]
  from inst' ok tpv obtain t' pt where
      run: "process_reward example_resolver ?rw (postCache, light_tip)
              = Inr (snd carol_first, t')"
      and one: "efficiencyData t' = efficiencyData light_tip @ [pt]"
    by blast
  from one have ne: "efficiencyData t' \<noteq> efficiencyData light_tip" by simp
  from inst' run ne obtain pt' where
      one': "efficiencyData t' = efficiencyData light_tip @ [pt']"
      and e1: "efficiency pt'
                 = Math_round (js_mul (js_div (js_div ?ev ?tv) (js_div ?vr ?tr)) (Num 100))"
      and w1: "weightedEff pt'
                 = Math_round (js_mul (efficiency pt')
                                 (js_div (percent (tip_vote light_tip)) (Num 10000)))"
    by blast
  from e1 eff have eff50: "efficiency pt' = Num 50" by simp
  from w1 eff50 pc weff have weff14: "weightedEff pt' = Num 14" by simp
  from one' e0 have "efficiencyData t' = [pt']" by simp
  with run eff50 weff14 have
    "\<exists>t' pt. process_reward example_resolver ?rw (postCache, light_tip)
                = Inr (snd carol_first, t')
        \<and> efficiencyData t' = [pt] \<and> efficiency pt = Num 50 \<and> weightedEff pt = Num 14"
    by blast
  with fetch_carol show ?thesis by simp
qed

text \<open>
  Claim C2, the code at a failed window fetch. With a network failure the run fulfils its
  promise, and the chart, not finalized before, is finalized after.
\<close>

theorem failed_fetch_finalizes_chart:
  "prefetchEfficiencyData example_resolver NetworkFailure (postCache, example_tip)
     = Inr (postCache, example_tip\<lparr>tip_scatter := Some (example_chart\<lparr>finalized := True\<rparr>)\<rparr>)
   \<and> \<not> finalized example_chart"
  by (simp add: prefetchEfficiencyData_def example_tip_def VoterTip_def
        example_chart_def EfficiencyScatter_def finalize_def addStatsLines_def stats_def
        yValues_def Math_max_def)

text \<open>
  Claim C2 as amended. When the window fetch fails, \<^verbatim>\<open>getHistoricCurationRewards\<close>
  logs the error and returns \<^verbatim>\<open>null\<close>; the run of a tip that has a chart fulfils
  its promise without processing an event: the cache, the totals, the emitted points and
  the chart's stored and plotted points are unchanged, and the chart is finalized and
  \<^verbatim>\<open>addStatsLines\<close> is called, which on a chart without points and without a y-axis
  maximum changes nothing further.
\<close>

theorem failed_fetch_run:
  assumes "is_failure fo" and "tip_scatter t = Some sc"
  shows "prefetchEfficiencyData R fo (c, t)
           = Inr (c, t\<lparr>tip_scatter := Some (addStatsLines (finalize sc))\<rparr>)
         \<and> rawPoints (addStatsLines (finalize sc)) = rawPoints sc
         \<and> dataset (addStatsLines (finalize sc)) = dataset sc
         \<and> finalized (addStatsLines (finalize sc))
         \<and> (dataset sc = [] \<and> y_max sc = None \<longrightarrow>
              addStatsLines (finalize sc) = sc\<lparr>finalized := True\<rparr>)"
proof -
  have "getHistoricCurationRewards fo = None"
    using assms(1) by (cases fo) (simp_all add: is_failure_def)
  then have "prefetchEfficiencyData R fo (c, t)
           = Inr (c, t\<lparr>tip_scatter := Some (addStatsLines (finalize sc))\<rparr>)"
    using assms(2) by (simp add: prefetchEfficiencyData_def)
  moreover have "dataset sc = [] \<and> y_max sc = None \<longrightarrow>
              addStatsLines (finalize sc) = sc\<lparr>finalized := True\<rparr>"
    using addStatsLines_empty [of "finalize sc"] by (simp add: finalize_def)
  ultimately show ?thesis by (simp add: finalize_def)
qed

theorem failed_fetch_run_witness:
  "is_failure (HttpNotOk 500) \<and> tip_scatter example_tip = Some example_chart
   \<and> dataset example_chart = [] \<and> y_max example_chart = None
   \<and> prefetchEfficiencyData example_resolver (HttpNotOk 500) (postCache, example_tip)
       = Inr (postCache,
              example_tip\<lparr>tip_scatter := Some (example_chart\<lparr>finalized := True\<rparr>)\<rparr>)"
proof -
  have f: "is_failure (HttpNotOk 500)" by (simp add: is_failure_def)
  have d: "dataset example_chart = [] \<and> y_max example_chart = None"
    by (simp add: example_chart_def EfficiencyScatter_def)
  from failed_fetch_run [OF f example_tip_scatter, of example_resolver postCache]
    f d example_tip_scatter
  show ?thesis by simp
qed

text \<open>
  Claim C3, the code at a resolution that fails with a 404. The first event's post
  rejects with an error that is not a 503: the run's promise rejects with a
  ReferenceError, the second event (which would resolve) is never processed and the
  chart is not finalized.
\<close>

theorem non503_failure_aborts_run:
  "\<not> is503 err404
   \<and> example_resolver 0 ''alice'' ''post'' (Num 1000) = Inl err404
   \<and> prefetchEfficiencyData example_resolver
       (Json (Some [example_reward ''alice'', example_reward ''carol'']))
       (postCache, example_tip) = Inl (ReferenceError ''error'')"
  by (simp add: prefetchEfficiencyData_def process_alice example_tip_scatter is503_err404
        example_resolver_def)

theorem non503_failure_aborts_run_witness:
  "prefetchEfficiencyData example_resolver
     (Json (Some [example_reward ''alice'', example_reward ''carol'']))
     (postCache, example_tip) \<noteq> Inr (postCache, example_tip)"
  using non503_failure_aborts_run by simp

end
